theory Spec2Isabelle
  imports Complex_Main
begin

section \<open>Python values and library functions used by \<open>geodata/dataset.py\<close>\<close>

text \<open>
  The exceptions that \<open>Dataset.__init__\<close>, \<open>Dataset.datasetfn\<close> and \<open>Dataset.get_data\<close>
  can raise. The five \<open>ValueError\<close>s of the source are told apart by their message:
  \<^item> \<open>ModuleNeeded\<close>: "`module` needs to be specified" (line 48);
  \<^item> \<open>ConfigNeeded\<close>: "`weather_data_config` needs to be specified" (line 50);
  \<^item> \<open>YearsNeeded\<close>: "`years` need to be specified" (line 64);
  \<^item> \<open>BoundsNotList4\<close>: "Specified bounds parameter should be list with North, West,
    South, East coordinates." (line 93);
  \<^item> \<open>BoundsNeededModis\<close>: the same message "for MODIS downloads." (line 96);
  \<^item> \<open>RangeStepZero\<close>: the builtin \<open>range\<close> called with step 0.
  What \<open>str.format_map\<close> raises and what the delegated acquisition routine raises are
  kept apart from the exceptions of the class itself.
\<close>

datatype value_error =
  ModuleNeeded | ConfigNeeded | YearsNeeded | BoundsNotList4 | BoundsNeededModis | RangeStepZero

datatype format_error = FieldMissing string | BadTemplate

datatype error =
    ValueError value_error
  | KeyError string
  | AttributeError string
  | IndexError
  | IllegalMonthError int
  | FormatMapRaised format_error
  | ApiRaised string

text \<open>Sequencing of computations that may raise: the first exception ends the run.\<close>

fun bind_result :: "error + 'a \<Rightarrow> ('a \<Rightarrow> error + 'b) \<Rightarrow> error + 'b" where
  "bind_result (Inl e) f = Inl e"
| "bind_result (Inr v) f = f v"

text \<open>A \<open>for\<close> loop whose body updates the state and may raise.\<close>

fun for_each :: "('a \<Rightarrow> 's \<Rightarrow> error + 's) \<Rightarrow> 'a list \<Rightarrow> 's \<Rightarrow> error + 's" where
  "for_each body [] s = Inr s"
| "for_each body (x # rest) s = bind_result (body x s) (for_each body rest)"

text \<open>A list comprehension whose element expression may raise.\<close>

fun map_result :: "('a \<Rightarrow> error + 'b) \<Rightarrow> 'a list \<Rightarrow> error + 'b list" where
  "map_result f [] = Inr []"
| "map_result f (x # rest) =
     bind_result (f x) (\<lambda>y. bind_result (map_result f rest) (\<lambda>ys. Inr (y # ys)))"

text \<open>
  Python's \<open>slice(start, stop, step)\<close>. The years and the months of a request are slices
  of integers, the coordinate slices \<open>xs\<close> and \<open>ys\<close> are slices of ordinates.
\<close>

datatype 'a pyslice = Slice (start: 'a) (stop: 'a) (step: "'a option")

text \<open>
  The builtin \<open>range(a, b, s)\<close>: \<open>a, a + s, a + 2 * s, ...\<close> as long as the value is below
  \<open>b\<close> (for a positive step) or above \<open>b\<close> (for a negative one); step 0 raises.
\<close>

function range_from :: "int \<Rightarrow> int \<Rightarrow> int \<Rightarrow> int list" where
  "range_from a b s =
     (if (0 < s \<and> a < b) \<or> (s < 0 \<and> b < a) then a # range_from (a + s) b s else [])"
  by pat_completeness auto
termination
  by (relation "measure (\<lambda>(a, b, s). nat (if 0 < s then b - a else a - b))") auto

declare range_from.simps [simp del]

definition py_range :: "int \<Rightarrow> int \<Rightarrow> int \<Rightarrow> error + int list" where
  "py_range a b s = (if s = 0 then Inl (ValueError RangeStepZero) else Inr (range_from a b s))"

text \<open>
  \<open>calendar.monthrange(year, month)[1]\<close>, the number of days of the month:
  \<open>mdays[month] + (month == February and isleap(year))\<close>, after the check
  \<open>1 <= month <= 12\<close> that raises \<open>IllegalMonthError\<close>. (The weekday that \<open>monthrange\<close>
  also returns is not used by the caller; since Python 3.8 it is computed for any year.)
\<close>

definition isleap :: "int \<Rightarrow> bool" where
  "isleap year = (year mod 4 = 0 \<and> (year mod 100 \<noteq> 0 \<or> year mod 400 = 0))"

definition mdays :: "int list" where
  "mdays = [0, 31, 28, 31, 30, 31, 30, 31, 31, 30, 31, 30, 31]"

definition monthrange_days :: "int \<Rightarrow> int \<Rightarrow> error + int" where
  "monthrange_days year month =
     (if \<not> (1 \<le> month \<and> month \<le> 12) then Inl (IllegalMonthError month)
      else Inr (mdays ! nat month + (if month = 2 \<and> isleap year then 1 else 0)))"

section \<open>The data of a Dataset\<close>

text \<open>
  What \<open>datasetfn\<close> returns: the rendered string, or the boolean \<open>False\<close> when it is
  called with no key or with more than three.
\<close>

datatype fn_value = PyFalse | PyStr string

text \<open>
  The value passed as \<open>bounds\<close>: a list, a tuple, or anything else. Only a list of
  length 4 passes the check \<open>type(self.bounds) is list and len(self.bounds) == 4\<close>.
\<close>

datatype bounds_value = ListValue "real list" | TupleValue "real list" | OtherValue

text \<open>
  An entry of a weather configuration that is a template: one string, or a sequence of
  strings (the two source templates of the \<open>*_multiple\<close> granularities).
\<close>

datatype cfg_value = CfgStr string | CfgSeq "string list"

text \<open>
  The tuples appended to \<open>toDownload\<close> start with \<open>(config, filename)\<close> and go on with
  one of four shapes: a rendered URL, two rendered URLs, the \<open>(yr, mo)\<close> key (module
  \<open>era5\<close>), or the bounds and the band (land cover).
\<close>

datatype acquisition =
    Url fn_value
  | Urls fn_value fn_value
  | YearMonth int int
  | BoundsBand bounds_value string

type_synonym artifact = "string \<times> fn_value"
type_synonym missing = "string \<times> fn_value \<times> acquisition"

text \<open>
  The delegated acquisition routine \<open>api_func\<close>. It is called with the lists of the
  instance themselves, so it can change them in place: the model passes their contents
  and gets back the contents that the lists it was given have after the call (for a
  list it was not given, the field is not read).
\<close>

datatype api_call =
    Era5Call "missing list" bounds_value "string list" string
  | Merra2Call "missing list" string "artifact list"

record api_lists =
  api_toDownload :: "missing list"
  api_bounds :: bounds_value
  api_variables :: "string list"
  api_downloadedFiles :: "artifact list"

record weather_config =
  file_granularity :: "string option"
  fn :: "cfg_value option"
  url :: "cfg_value option"
  band :: "string option"
  variables :: "string list option"
  product_cfg :: "string option"
  api_func :: "(api_call \<Rightarrow> error + api_lists) option"

text \<open>The attributes of a module of \<open>geodata.datasets\<close> that the class reads.\<close>

record geodata_module =
  module_datadir :: string
  spinup_var :: bool
  spinup_year :: "int \<Rightarrow> int"
  weather_data_config :: "string \<rightharpoonup> weather_config"

text \<open>
  The interpreter state the class reads: the loaded modules (\<open>sys.modules\<close>) and the
  builtin \<open>str.format_map\<close>, applied to a template and to the dict of the key.
\<close>

record py_env =
  sys_modules :: "string \<rightharpoonup> geodata_module"
  format_map :: "string \<Rightarrow> (string \<times> int) list \<Rightarrow> format_error + string"

record filesystem =
  isdir :: "string \<Rightarrow> bool"
  isfile :: "fn_value \<Rightarrow> bool"

text \<open>The keyword arguments of the constructor; \<open>None\<close> is an absent key.\<close>

record datasetparams =
  p_module :: "string option"
  p_weather_data_config :: "string option"
  p_datadir :: "string option"
  p_years :: "int pyslice option"
  p_months :: "int pyslice option"
  p_bounds :: "bounds_value option"
  p_xs :: "real pyslice option"
  p_ys :: "real pyslice option"

text \<open>The records sent to the logger, in order.\<close>

datatype log_record =
    InfoManualDatadir
  | InfoNoMonths
  | WarnBoundsNotUsed
  | InfoDirFound string
  | InfoDirNotFound string
  | InfoFileNotFound fn_value
  | WarnXsYsNotUsed
  | InfoNotCompleted int
  | InfoDirComplete

text \<open>
  The instance. The last four fields are not attributes: \<open>params_xs\<close> and \<open>params_ys\<close>
  are the entries \<open>xs\<close> and \<open>ys\<close> of the local dict \<open>datasetparams\<close>,
  \<open>incomplete_count\<close> is the local counter, \<open>logged\<close> is what was sent to the logger.
  \<open>bounds\<close> is \<open>None\<close> while the attribute is not set.
\<close>

record dataset =
  module :: string
  config :: string
  dataset_module :: geodata_module
  weatherconfig :: weather_config
  datadir :: string
  years :: "int pyslice"
  months :: "int pyslice"
  bounds :: "bounds_value option"
  prepared :: bool
  toDownload :: "missing list"
  downloadedFiles :: "artifact list"
  totalFiles :: "artifact list"
  params_xs :: "real pyslice option"
  params_ys :: "real pyslice option"
  incomplete_count :: int
  logged :: "log_record list"

section \<open>\<open>Dataset.datasetfn\<close> (lines 232-246)\<close>

text \<open>Lines 242-246: the spinup year is added to the dict, then the template is filled.\<close>

definition datasetfn_fill ::
  "geodata_module \<Rightarrow> py_env \<Rightarrow> cfg_value \<Rightarrow> int \<Rightarrow> (string \<times> int) list \<Rightarrow> error + fn_value" where
  "datasetfn_fill M E tmpl year dataset =
     (let dataset' = (if spinup_var M then dataset @ [(''spinup'', spinup_year M year)]
                      else dataset)
      in case tmpl of
           CfgStr t \<Rightarrow>
             (case format_map E t dataset' of
                Inl e \<Rightarrow> Inl (FormatMapRaised e)
              | Inr s \<Rightarrow> Inr (PyStr s))
         | CfgSeq _ \<Rightarrow> Inl (AttributeError ''format_map''))"

fun datasetfn :: "geodata_module \<Rightarrow> py_env \<Rightarrow> cfg_value \<Rightarrow> int list \<Rightarrow> error + fn_value" where
  "datasetfn M E tmpl [y, m, d] =
     datasetfn_fill M E tmpl y [(''year'', y), (''month'', m), (''day'', d)]"
| "datasetfn M E tmpl [y, m] = datasetfn_fill M E tmpl y [(''year'', y), (''month'', m)]"
| "datasetfn M E tmpl [y] = datasetfn_fill M E tmpl y [(''year'', y)]"
| "datasetfn M E tmpl args = Inr PyFalse"

section \<open>\<open>Dataset.__init__\<close> (lines 46-230)\<close>

text \<open>Subscription of a configuration dict and of one of its template entries.\<close>

definition cfg_get :: "string \<Rightarrow> 'a option \<Rightarrow> error + 'a" where
  "cfg_get key v = (case v of None \<Rightarrow> Inl (KeyError key) | Some x \<Rightarrow> Inr x)"

text \<open>Reading an attribute of the instance that may not have been set.\<close>

definition attr_get :: "string \<Rightarrow> 'a option \<Rightarrow> error + 'a" where
  "attr_get name v = (case v of None \<Rightarrow> Inl (AttributeError name) | Some x \<Rightarrow> Inr x)"

definition cfg_index :: "cfg_value \<Rightarrow> nat \<Rightarrow> error + cfg_value" where
  "cfg_index v i =
     (case v of
        CfgStr s \<Rightarrow> if i < length s then Inr (CfgStr [s ! i]) else Inl IndexError
      | CfgSeq ts \<Rightarrow> if i < length ts then Inr (CfgStr (ts ! i)) else Inl IndexError)"

text \<open>
  Lines 47-84: the required keys, the module and its configuration, the data directory,
  the years and the months, and the empty lists.
\<close>

definition init_request :: "py_env \<Rightarrow> datasetparams \<Rightarrow> error + dataset" where
  "init_request E p =
     (case p_module p of
        None \<Rightarrow> Inl (ValueError ModuleNeeded)
      | Some mname \<Rightarrow>
     (case p_weather_data_config p of
        None \<Rightarrow> Inl (ValueError ConfigNeeded)
      | Some cfg \<Rightarrow>
     (case sys_modules E (''geodata.datasets.'' @ mname) of
        None \<Rightarrow> Inl (KeyError (''geodata.datasets.'' @ mname))
      | Some M \<Rightarrow>
     (case weather_data_config M cfg of
        None \<Rightarrow> Inl (KeyError cfg)
      | Some wc \<Rightarrow>
     (let log1 = (if p_datadir p \<noteq> None then [InfoManualDatadir] else []) in
      case p_years p of
        None \<Rightarrow> Inl (ValueError YearsNeeded)
      | Some yrs \<Rightarrow>
          bind_result
            (case p_months p of
               None \<Rightarrow>
                 bind_result (cfg_get ''file_granularity'' (file_granularity wc))
                   (\<lambda>g. Inr (Slice 1 12 None,
                              if g \<noteq> ''yearly'' then log1 @ [InfoNoMonths] else log1))
             | Some mos \<Rightarrow> Inr (mos, log1))
            (\<lambda>(mos, log2).
               Inr \<lparr> module = mname, config = cfg, dataset_module = M, weatherconfig = wc,
                     datadir = module_datadir M, years = yrs, months = mos, bounds = None,
                     prepared = False, toDownload = [], downloadedFiles = [],
                     totalFiles = [], params_xs = p_xs p, params_ys = p_ys p,
                     incomplete_count = 0, logged = log2 \<rparr>))))))"

text \<open>Lines 86-98: the bounds and the two coordinate slices made from them.\<close>

definition init_bounds :: "datasetparams \<Rightarrow> dataset \<Rightarrow> error + dataset" where
  "init_bounds p d =
     (case p_bounds p of
        Some b \<Rightarrow>
          (case b of
             ListValue [x1, y1, x2, y2] \<Rightarrow>
               Inr (d\<lparr> bounds := Some b,
                       params_xs := Some (Slice x1 x2 None),
                       params_ys := Some (Slice y2 y1 None) \<rparr>)
           | _ \<Rightarrow> Inl (ValueError BoundsNotList4))
      | None \<Rightarrow>
          if config d = ''modis_land_cover'' then Inl (ValueError BoundsNeededModis)
          else Inr (d\<lparr> logged := logged d @ [WarnBoundsNotUsed] \<rparr>))"

text \<open>
  Lines 109-112: the values of a slice of years or months,
  \<open>range(s.start, s.stop + step, step)\<close> with \<open>step = s.step if s.step else 1\<close>.
\<close>

definition slice_step :: "int pyslice \<Rightarrow> int" where
  "slice_step s = (case step s of None \<Rightarrow> 1 | Some k \<Rightarrow> if k = 0 then 1 else k)"

definition slice_range :: "int pyslice \<Rightarrow> error + int list" where
  "slice_range s = py_range (start s) (stop s + slice_step s) (slice_step s)"

text \<open>
  The body that the five branches of the scan repeat (lines 124-132, 144-157, 165-176,
  183-196, 201-214): the file is appended to \<open>totalFiles\<close>; when it is not on disk,
  \<open>prepared\<close> is cleared, the miss is logged and counted if the directory exists, and
  the file is appended to \<open>toDownload\<close> with the acquisition shape of the branch,
  which is computed only then; otherwise it is appended to \<open>downloadedFiles\<close>.
\<close>

definition scan_file ::
  "filesystem \<Rightarrow> bool \<Rightarrow> fn_value \<Rightarrow> error + acquisition \<Rightarrow> dataset \<Rightarrow> error + dataset" where
  "scan_file fs check_complete filename acq d =
     (let d1 = d\<lparr> totalFiles := totalFiles d @ [(config d, filename)] \<rparr> in
      if \<not> isfile fs filename then
        (let d2 = d1\<lparr> prepared := False \<rparr>;
             d3 = (if check_complete
                   then d2\<lparr> logged := logged d2 @ [InfoFileNotFound filename],
                            incomplete_count := incomplete_count d2 + 1 \<rparr>
                   else d2)
         in bind_result acq
              (\<lambda>a. Inr (d3\<lparr> toDownload := toDownload d3 @ [(config d, filename, a)] \<rparr>)))
      else Inr (d1\<lparr> downloadedFiles := downloadedFiles d1 @ [(config d, filename)] \<rparr>))"

text \<open>\<open>self.datasetfn(self.weatherconfig['fn'], *key)\<close> and the same for the URL templates.\<close>

definition local_fn :: "py_env \<Rightarrow> dataset \<Rightarrow> int list \<Rightarrow> error + fn_value" where
  "local_fn E d key =
     bind_result (cfg_get ''fn'' (fn (weatherconfig d)))
       (\<lambda>t. datasetfn (dataset_module d) E t key)"

definition single_url :: "py_env \<Rightarrow> dataset \<Rightarrow> int list \<Rightarrow> error + acquisition" where
  "single_url E d key =
     bind_result (cfg_get ''url'' (url (weatherconfig d)))
       (\<lambda>u. bind_result (datasetfn (dataset_module d) E u key) (\<lambda>r. Inr (Url r)))"

definition url_pair :: "py_env \<Rightarrow> dataset \<Rightarrow> int list \<Rightarrow> error + acquisition" where
  "url_pair E d key =
     bind_result (cfg_get ''url'' (url (weatherconfig d))) (\<lambda>u.
     bind_result (cfg_index u 0) (\<lambda>u0.
     bind_result (datasetfn (dataset_module d) E u0 key) (\<lambda>r0.
     bind_result (cfg_get ''url'' (url (weatherconfig d))) (\<lambda>u'.
     bind_result (cfg_index u' 1) (\<lambda>u1.
     bind_result (datasetfn (dataset_module d) E u1 key) (\<lambda>r1.
     Inr (Urls r0 r1)))))))"

text \<open>Lines 117 and 137: \<open>[(yr, mo, monthrange(yr, mo)[1]) for yr in yrs for mo in mos]\<close>.\<close>

definition daily_mo_tuples :: "int list \<Rightarrow> int list \<Rightarrow> error + (int \<times> int \<times> int) list" where
  "daily_mo_tuples yrs mos =
     map_result (\<lambda>(yr, mo). bind_result (monthrange_days yr mo) (\<lambda>n. Inr (yr, mo, n)))
       (concat (map (\<lambda>yr. map (\<lambda>mo. (yr, mo)) mos) yrs))"

text \<open>Lines 161 and 179: \<open>[(yr, mo) for yr in yrs for mo in mos]\<close>.\<close>

definition monthly_mo_tuples :: "int list \<Rightarrow> int list \<Rightarrow> (int \<times> int) list" where
  "monthly_mo_tuples yrs mos = concat (map (\<lambda>yr. map (\<lambda>mo. (yr, mo)) mos) yrs)"

text \<open>
  The loops of the daily branches (lines 119-132 and 139-157): for every tuple, for
  every day of \<open>range(1, nodays + 1, 1)\<close>.
\<close>

definition scan_days ::
  "py_env \<Rightarrow> filesystem \<Rightarrow> bool \<Rightarrow> (py_env \<Rightarrow> dataset \<Rightarrow> int list \<Rightarrow> error + acquisition) \<Rightarrow>
   (int \<times> int \<times> int) \<Rightarrow> dataset \<Rightarrow> error + dataset" where
  "scan_days E fs check_complete shape mo_tuple d =
     (case mo_tuple of (yr, mo, nodays) \<Rightarrow>
        bind_result (py_range 1 (nodays + 1) 1) (\<lambda>days.
          for_each
            (\<lambda>day d'. bind_result (local_fn E d' [yr, mo, day]) (\<lambda>filename.
                 scan_file fs check_complete filename (shape E d' [yr, mo, day]) d'))
            days d))"

text \<open>The loops of the monthly branches (lines 162-176 and 180-196).\<close>

definition scan_month ::
  "py_env \<Rightarrow> filesystem \<Rightarrow> bool \<Rightarrow> (py_env \<Rightarrow> dataset \<Rightarrow> int list \<Rightarrow> error + acquisition) \<Rightarrow>
   (int \<times> int) \<Rightarrow> dataset \<Rightarrow> error + dataset" where
  "scan_month E fs check_complete shape mo_tuple d =
     (case mo_tuple of (yr, mo) \<Rightarrow>
        bind_result (local_fn E d [yr, mo]) (\<lambda>filename.
          scan_file fs check_complete filename (shape E d [yr, mo]) d))"

text \<open>Lines 171-174: module \<open>era5\<close> gets the key, every other module a rendered URL.\<close>

definition monthly_shape :: "py_env \<Rightarrow> dataset \<Rightarrow> int list \<Rightarrow> error + acquisition" where
  "monthly_shape E d key =
     (if module d = ''era5'' then Inr (YearMonth (key ! 0) (key ! 1))
      else single_url E d key)"

text \<open>Lines 199-214: the land-cover loop over the years.\<close>

definition modis_shape :: "py_env \<Rightarrow> dataset \<Rightarrow> int list \<Rightarrow> error + acquisition" where
  "modis_shape E d key =
     bind_result (attr_get ''bounds'' (bounds d)) (\<lambda>b.
     bind_result (cfg_get ''band'' (band (weatherconfig d))) (\<lambda>bd. Inr (BoundsBand b bd)))"

definition scan_year :: "py_env \<Rightarrow> filesystem \<Rightarrow> bool \<Rightarrow> int \<Rightarrow> dataset \<Rightarrow> error + dataset" where
  "scan_year E fs check_complete yr d =
     bind_result (local_fn E d [yr]) (\<lambda>filename.
       scan_file fs check_complete filename (modis_shape E d [yr]) d)"

text \<open>
  Lines 114-214: the branch chosen by \<open>file_granularity\<close> or, last, by the name of the
  configuration. With none of them nothing is scanned.
\<close>

definition scan_branch ::
  "py_env \<Rightarrow> filesystem \<Rightarrow> bool \<Rightarrow> string \<Rightarrow> int list \<Rightarrow> int list \<Rightarrow> dataset \<Rightarrow> error + dataset" where
  "scan_branch E fs check_complete g yrs mos d =
     (if g = ''daily'' \<or> g = ''dailymeans'' then
        bind_result (daily_mo_tuples yrs mos) (\<lambda>mo_tuples.
          for_each (scan_days E fs check_complete single_url) mo_tuples d)
      else if g = ''daily_multiple'' then
        bind_result (daily_mo_tuples yrs mos) (\<lambda>mo_tuples.
          for_each (scan_days E fs check_complete url_pair) mo_tuples d)
      else if g = ''monthly'' then
        for_each (scan_month E fs check_complete monthly_shape) (monthly_mo_tuples yrs mos) d
      else if g = ''monthly_multiple'' then
        for_each (scan_month E fs check_complete url_pair) (monthly_mo_tuples yrs mos) d
      else if config d = ''modis_land_cover'' then
        for_each (scan_year E fs check_complete) yrs d
      else Inr d)"

text \<open>Lines 100-112: the directory check and the two ranges, then the scan.\<close>

definition init_scan :: "py_env \<Rightarrow> filesystem \<Rightarrow> dataset \<Rightarrow> error + dataset" where
  "init_scan E fs d0 =
     (let check_complete = isdir fs (datadir d0);
          d = (if check_complete
               then d0\<lparr> logged := logged d0 @ [InfoDirFound (datadir d0)], prepared := True \<rparr>
               else d0\<lparr> logged := logged d0 @ [InfoDirNotFound (datadir d0)] \<rparr>)
      in
      bind_result (slice_range (years d)) (\<lambda>yrs.
      bind_result (slice_range (months d)) (\<lambda>mos.
      bind_result (cfg_get ''file_granularity'' (file_granularity (weatherconfig d))) (\<lambda>g.
        scan_branch E fs check_complete g yrs mos d))))"

text \<open>Lines 216-230: the closing log records.\<close>

definition init_report :: "dataset \<Rightarrow> dataset" where
  "init_report d =
     (if \<not> prepared d then
        (let log1 = (if params_xs d = None \<or> params_ys d = None then [WarnXsYsNotUsed] else [])
         in d\<lparr> logged := logged d @ log1 @ [InfoNotCompleted (incomplete_count d)] \<rparr>)
      else d\<lparr> logged := logged d @ [InfoDirComplete] \<rparr>)"

definition Dataset_init :: "py_env \<Rightarrow> filesystem \<Rightarrow> datasetparams \<Rightarrow> error + dataset" where
  "Dataset_init E fs p =
     bind_result (init_request E p) (\<lambda>d0.
     bind_result (init_bounds p d0) (\<lambda>d1.
     bind_result (init_scan E fs d1) (\<lambda>d2. Inr (init_report d2))))"

section \<open>\<open>Dataset.get_data\<close> (lines 248-279)\<close>

text \<open>Lines 260-275: the call of the acquisition routine, chosen by the module name.\<close>

definition call_api_func :: "(api_call \<Rightarrow> error + api_lists) \<Rightarrow> dataset \<Rightarrow> error + dataset" where
  "call_api_func f d =
     (if module d = ''era5'' then
        bind_result (attr_get ''bounds'' (bounds d)) (\<lambda>b.
        bind_result (cfg_get ''variables'' (variables (weatherconfig d))) (\<lambda>vs.
        bind_result (cfg_get ''product'' (product_cfg (weatherconfig d))) (\<lambda>pr.
        bind_result (f (Era5Call (toDownload d) b vs pr))
          (\<lambda>r. Inr (d\<lparr> toDownload := api_toDownload r, bounds := Some (api_bounds r),
                        weatherconfig :=
                          (weatherconfig d)\<lparr> variables := Some (api_variables r) \<rparr> \<rparr>)))))
      else if module d = ''merra2'' then
        bind_result (cfg_get ''file_granularity'' (file_granularity (weatherconfig d))) (\<lambda>g.
        bind_result (f (Merra2Call (toDownload d) g (downloadedFiles d)))
          (\<lambda>r. Inr (d\<lparr> toDownload := api_toDownload r,
                        downloadedFiles := api_downloadedFiles r \<rparr>)))
      else Inr d)"

text \<open>Lines 258 and 278-279: the routine is looked up first, the lists are compared last.\<close>

definition get_data :: "dataset \<Rightarrow> error + dataset" where
  "get_data d =
     bind_result (cfg_get ''api_func'' (api_func (weatherconfig d))) (\<lambda>f.
     bind_result (call_api_func f d) (\<lambda>d'.
       Inr (if downloadedFiles d' = totalFiles d' then d'\<lparr> prepared := True \<rparr> else d')))"

section \<open>Reference definitions for the statements\<close>

text \<open>
  The calendar, in words: thirty days have September, April, June and November; February
  has 28, and 29 in a leap year (every fourth year, except the centuries not divisible
  by 400); all the rest have 31.
\<close>

definition days_in_month :: "int \<Rightarrow> int \<Rightarrow> int" where
  "days_in_month year month =
     (if month \<in> {4, 6, 9, 11} then 30
      else if month = 2 then
        (if year mod 400 = 0 \<or> (year mod 4 = 0 \<and> year mod 100 \<noteq> 0) then 29 else 28)
      else 31)"

text \<open>
  The keys in the order year-major, month-minor, day-innermost: for every year, for every
  month, (for every day of the month).
\<close>

definition monthly_keys :: "int list \<Rightarrow> int list \<Rightarrow> (int \<times> int) list" where
  "monthly_keys yrs mos = concat (map (\<lambda>yr. map (\<lambda>mo. (yr, mo)) mos) yrs)"

definition daily_keys :: "int list \<Rightarrow> int list \<Rightarrow> (int \<times> int \<times> int) list" where
  "daily_keys yrs mos =
     concat (map (\<lambda>yr. concat (map (\<lambda>mo.
       map (\<lambda>day. (yr, mo, day)) [1..days_in_month yr mo]) mos)) yrs)"

text \<open>The values of a slice, without the exception that step 0 would raise in \<open>range\<close>.\<close>

definition slice_values :: "int pyslice \<Rightarrow> int list" where
  "slice_values s = range_from (start s) (stop s + slice_step s) (slice_step s)"

text \<open>The \<open>(config, filename)\<close> part of an entry of \<open>toDownload\<close>.\<close>

definition artifact_of :: "missing \<Rightarrow> artifact" where
  "artifact_of m = (fst m, fst (snd m))"

text \<open>What the scan leaves as it is: the request and the configuration.\<close>

definition same_request :: "dataset \<Rightarrow> dataset \<Rightarrow> bool" where
  "same_request d d' \<longleftrightarrow>
     module d' = module d \<and> config d' = config d \<and> dataset_module d' = dataset_module d \<and>
     weatherconfig d' = weatherconfig d \<and> datadir d' = datadir d \<and> years d' = years d \<and>
     months d' = months d \<and> bounds d' = bounds d \<and> params_xs d' = params_xs d \<and>
     params_ys d' = params_ys d"

text \<open>
  The state of the lists during the scan of a filesystem: the files on disk and the
  files not on disk, each in the order of \<open>totalFiles\<close>, and \<open>prepared\<close> still set only
  if the directory exists and nothing is missing.
\<close>

definition scanned :: "filesystem \<Rightarrow> bool \<Rightarrow> dataset \<Rightarrow> bool" where
  "scanned fs check_complete d \<longleftrightarrow>
     downloadedFiles d = filter (\<lambda>a. isfile fs (snd a)) (totalFiles d) \<and>
     map artifact_of (toDownload d) = filter (\<lambda>a. \<not> isfile fs (snd a)) (totalFiles d) \<and>
     prepared d = (check_complete \<and> toDownload d = [])"

text \<open>An artifact of a key: the name of the configuration and the rendered file name.\<close>

definition renders :: "py_env \<Rightarrow> dataset \<Rightarrow> int list \<Rightarrow> artifact \<Rightarrow> bool" where
  "renders E d key a \<longleftrightarrow> fst a = config d \<and> local_fn E d key = Inr (snd a)"

text \<open>
  The keys of a request: days for the daily granularities, months for the monthly ones,
  years for the land cover, and none for any other granularity.
\<close>

definition expected_keys :: "dataset \<Rightarrow> int list list" where
  "expected_keys d =
     (let yrs = slice_values (years d); mos = slice_values (months d);
          g = file_granularity (weatherconfig d)
      in if g \<in> {Some ''daily'', Some ''dailymeans'', Some ''daily_multiple''}
         then map (\<lambda>(yr, mo, day). [yr, mo, day]) (daily_keys yrs mos)
         else if g \<in> {Some ''monthly'', Some ''monthly_multiple''}
         then map (\<lambda>(yr, mo). [yr, mo]) (monthly_keys yrs mos)
         else if config d = ''modis_land_cover'' then map (\<lambda>yr. [yr]) yrs
         else [])"

definition scanning :: "filesystem \<Rightarrow> bool \<Rightarrow> dataset \<Rightarrow> dataset \<Rightarrow> bool" where
  "scanning fs check_complete d0 d \<longleftrightarrow> same_request d0 d \<and> scanned fs check_complete d"

section \<open>A concrete interpreter state, for evaluation\<close>

text \<open>
  An instance of \<open>format_map\<close> for the evaluations below. It fills the two forms of
  replacement field that the templates of the repository use, \<open>{name}\<close> and
  \<open>{name:0>2}\<close>, with the decimal form of the integer, and raises for a name that the
  dict lacks. Other templates (escaped braces, other format specs) are outside what it
  implements: it answers \<open>BadTemplate\<close> for them, which Python does only for some.
\<close>

definition str_digit :: "nat \<Rightarrow> char" where
  "str_digit n = ''0123456789'' ! n"

fun str_nat :: "nat \<Rightarrow> string" where
  "str_nat n = (if n < 10 then [str_digit n] else str_nat (n div 10) @ [str_digit (n mod 10)])"

declare str_nat.simps [simp del]

definition str_int :: "int \<Rightarrow> string" where
  "str_int i = (if i < 0 then CHR ''-'' # str_nat (nat (- i)) else str_nat (nat i))"

definition zero_fill :: "nat \<Rightarrow> string \<Rightarrow> string" where
  "zero_fill w s = replicate (w - length s) CHR ''0'' @ s"

definition render_field :: "string \<Rightarrow> (string \<times> int) list \<Rightarrow> format_error + string" where
  "render_field field dataset =
     (let name = takeWhile (\<lambda>c. c \<noteq> CHR '':'') field;
          spec = drop (length name + 1) field
      in case map_of dataset name of
           None \<Rightarrow> Inl (FieldMissing name)
         | Some v \<Rightarrow>
             if spec = [] then Inr (str_int v)
             else if spec = ''0>2'' then Inr (zero_fill 2 (str_int v))
             else Inl BadTemplate)"

fun fill_template ::
  "string option \<Rightarrow> string \<Rightarrow> (string \<times> int) list \<Rightarrow> format_error + string" where
  "fill_template None [] dataset = Inr []"
| "fill_template (Some field) [] dataset = Inl BadTemplate"
| "fill_template None (c # cs) dataset =
     (if c = CHR ''{'' then fill_template (Some []) cs dataset
      else if c = CHR ''}'' then Inl BadTemplate
      else (case fill_template None cs dataset of Inl e \<Rightarrow> Inl e | Inr t \<Rightarrow> Inr (c # t)))"
| "fill_template (Some field) (c # cs) dataset =
     (if c = CHR ''}'' then
        (case render_field field dataset of
           Inl e \<Rightarrow> Inl e
         | Inr s \<Rightarrow>
             (case fill_template None cs dataset of Inl e \<Rightarrow> Inl e | Inr t \<Rightarrow> Inr (s @ t)))
      else fill_template (Some (field @ [c])) cs dataset)"

text \<open>
  The module \<open>geodata/datasets/era5.py\<close> as it is in the repository: \<open>datadir\<close> is the
  \<open>era5_dir\<close> of the configuration, \<open>spinup_var\<close> is \<open>False\<close>, and
  \<open>weather_data_config\<close> has the one entry \<open>'_'\<close>, with the keys \<open>tasks_func\<close>,
  \<open>prepare_func\<close> and \<open>template\<close> and none of the keys that the class reads.
\<close>

definition era5_underscore :: weather_config where
  "era5_underscore =
     \<lparr> file_granularity = None, fn = None, url = None, band = None, variables = None,
       product_cfg = None, api_func = None \<rparr>"

definition era5_module :: "string \<Rightarrow> geodata_module" where
  "era5_module era5_dir =
     \<lparr> module_datadir = era5_dir, spinup_var = False, spinup_year = (\<lambda>year. year),
       weather_data_config = [''_'' \<mapsto> era5_underscore] \<rparr>"

text \<open>
  A module in the style the class expects, with one configuration per kind of scan: one
  file per day, one file per month, and the granularity \<open>yearly\<close> that line 68 names.
\<close>

definition daily_cfg :: weather_config where
  "daily_cfg =
     \<lparr> file_granularity = Some ''daily'',
       fn = Some (CfgStr ''/d/{year}{month:0>2}{day:0>2}.nc''),
       url = Some (CfgStr ''http://h/{year}/{month:0>2}/{day:0>2}''),
       band = None, variables = Some [''u10m''], product_cfg = None, api_func = None \<rparr>"

definition monthly_cfg :: weather_config where
  "monthly_cfg =
     \<lparr> file_granularity = Some ''monthly'',
       fn = Some (CfgStr ''/d/{year}{month:0>2}.nc''),
       url = Some (CfgStr ''http://h/{year}/{month:0>2}''),
       band = None, variables = Some [''u10m''], product_cfg = None, api_func = None \<rparr>"

definition yearly_cfg :: weather_config where
  "yearly_cfg =
     \<lparr> file_granularity = Some ''yearly'', fn = Some (CfgStr ''/d/{year}.nc''),
       url = None, band = None, variables = None, product_cfg = None, api_func = None \<rparr>"

definition sample_module :: geodata_module where
  "sample_module =
     \<lparr> module_datadir = ''/d'', spinup_var = False, spinup_year = (\<lambda>year. year),
       weather_data_config =
         [''by_day'' \<mapsto> daily_cfg, ''by_month'' \<mapsto> monthly_cfg, ''by_year'' \<mapsto> yearly_cfg] \<rparr>"

definition sample_env :: py_env where
  "sample_env =
     \<lparr> sys_modules =
         [''geodata.datasets.sample'' \<mapsto> sample_module,
          ''geodata.datasets.era5'' \<mapsto> era5_module ''/era5''],
       format_map = fill_template None \<rparr>"

text \<open>Three filesystems: nothing there, everything there, everything but one file.\<close>

definition fs_nothing :: filesystem where
  "fs_nothing = \<lparr> isdir = (\<lambda>dir. False), isfile = (\<lambda>f. False) \<rparr>"

definition fs_everything :: filesystem where
  "fs_everything = \<lparr> isdir = (\<lambda>dir. True), isfile = (\<lambda>f. True) \<rparr>"

definition fs_without :: "string \<Rightarrow> filesystem" where
  "fs_without missing_file =
     \<lparr> isdir = (\<lambda>dir. True), isfile = (\<lambda>f. f \<noteq> PyStr missing_file) \<rparr>"

text \<open>A request with the keys \<open>module\<close>, \<open>weather_data_config\<close>, \<open>years\<close>, \<open>months\<close>, \<open>bounds\<close>.\<close>

definition request ::
  "string \<Rightarrow> string \<Rightarrow> int pyslice \<Rightarrow> int pyslice \<Rightarrow> bounds_value option \<Rightarrow> datasetparams" where
  "request mname cfg yrs mos bnds =
     \<lparr> p_module = Some mname, p_weather_data_config = Some cfg, p_datadir = None,
       p_years = Some yrs, p_months = Some mos, p_bounds = bnds, p_xs = None, p_ys = None \<rparr>"

text \<open>
  An instance of module \<open>merra2\<close> with one file still to fetch, and an acquisition routine
  that fetches everything it is given: it empties \<open>toDownload\<close> and, where it is given
  \<open>downloadedFiles\<close>, appends the fetched files there.
\<close>

definition fetch_all :: "api_call \<Rightarrow> error + api_lists" where
  "fetch_all call =
     (case call of
        Era5Call todo b vs pr \<Rightarrow>
          Inr \<lparr> api_toDownload = [], api_bounds = b, api_variables = vs,
                api_downloadedFiles = [] \<rparr>
      | Merra2Call todo g have \<Rightarrow>
          Inr \<lparr> api_toDownload = [], api_bounds = OtherValue, api_variables = [],
                api_downloadedFiles = have @ map artifact_of todo \<rparr>)"

definition merra2_pending :: dataset where
  "merra2_pending =
     \<lparr> module = ''merra2'', config = ''by_month'', dataset_module = sample_module,
       weatherconfig = monthly_cfg\<lparr> api_func := Some fetch_all \<rparr>, datadir = ''/d'',
       years = Slice 2020 2020 None, months = Slice 1 1 None, bounds = None,
       prepared = False,
       toDownload = [(''by_month'', PyStr ''/d/202001.nc'', Url (PyStr ''http://h/2020/01''))],
       downloadedFiles = [], totalFiles = [(''by_month'', PyStr ''/d/202001.nc'')],
       params_xs = None, params_ys = None, incomplete_count = 0, logged = [] \<rparr>"


text \<open>
  Whether a run ended in one of the statements \<open>raise ValueError(...)\<close> of the class (or
  in the one of \<open>range\<close>), the exceptions written \<open>ValueError v\<close> here. This is narrower than
  \<open>is_ValueError\<close>: it serves to tell where the errors of the bounds check can come from.
\<close>

definition raises_own_ValueError :: "error + 'a \<Rightarrow> bool" where
  "raises_own_ValueError r = (case r of Inl (ValueError v) \<Rightarrow> True | _ \<Rightarrow> False)"

text \<open>Whether a value is a list of four elements.\<close>

definition four_element_list :: "bounds_value \<Rightarrow> bool" where
  "four_element_list b = (case b of ListValue l \<Rightarrow> length l = 4 | _ \<Rightarrow> False)"

section \<open>Sequencing and loops\<close>

lemma bind_result_eq_Inr:
  "bind_result x f = Inr y \<longleftrightarrow> (\<exists>v. x = Inr v \<and> f v = Inr y)"
  by (cases x) auto

lemma bind_result_eq_Inl:
  "bind_result x f = Inl e \<longleftrightarrow> x = Inl e \<or> (\<exists>v. x = Inr v \<and> f v = Inl e)"
  by (cases x) auto

section \<open>\<open>datasetfn\<close>\<close>

text \<open>
  C10. Called with no key argument, or with more than three, \<open>datasetfn\<close> returns
  \<open>False\<close>, whatever the template, the module and \<open>format_map\<close> are: the result does
  not depend on the substitution, which is not reached.
\<close>

theorem datasetfn_without_key_is_False:
  "length args = 0 \<or> 3 < length args \<Longrightarrow> datasetfn M E tmpl args = Inr PyFalse"
  by (induction M E tmpl args rule: datasetfn.induct) auto

theorem datasetfn_without_key_is_False_witness:
  "datasetfn sample_module sample_env (CfgStr ''/d/{year}.nc'') [] = Inr PyFalse \<and>
   datasetfn sample_module sample_env (CfgStr ''/d/{year}.nc'') [2020, 1, 2, 3] = Inr PyFalse"
  using datasetfn_without_key_is_False [of "[]" sample_module sample_env "CfgStr ''/d/{year}.nc''"]
    datasetfn_without_key_is_False [of "[2020, 1, 2, 3]" sample_module sample_env
      "CfgStr ''/d/{year}.nc''"]
  by simp

section \<open>The ranges of years and months\<close>

text \<open>
  C3. The values of the slice \<open>(1, 12, 2)\<close> are computed as \<open>range(1, 12 + 2, 2)\<close>, and
  the last of them, 13, is above the stop 12.
\<close>

theorem slice_range_passes_stop:
  "slice_range (Slice 1 12 (Some 2)) = Inr [1, 3, 5, 7, 9, 11, 13]"
  by (simp add: slice_range_def slice_step_def py_range_def range_from.simps)

section \<open>The bounds\<close>

text \<open>
  C4. For bounds given as the list \<open>[north, west, south, east]\<close>, the slice \<open>xs\<close> is
  made from the first and the third element, its endpoints are \<open>(north, south)\<close>, and
  the slice \<open>ys\<close> from the fourth and the second, its endpoints are \<open>(east, west)\<close>.
\<close>

theorem bounds_slices_as_coded:
  "init_bounds (p\<lparr> p_bounds := Some (ListValue [north, west, south, east]) \<rparr>) d =
     Inr (d\<lparr> bounds := Some (ListValue [north, west, south, east]),
             params_xs := Some (Slice north south None),
             params_ys := Some (Slice east west None) \<rparr>)"
  by (simp add: init_bounds_def)

section \<open>\<open>get_data\<close>\<close>

lemma call_api_func_keeps:
  assumes "call_api_func f d = Inr d1"
  shows "prepared d1 = prepared d \<and> totalFiles d1 = totalFiles d"
proof (cases "module d = ''era5''")
  case True
  with assms show ?thesis by (auto simp: call_api_func_def bind_result_eq_Inr)
next
  case False
  with assms show ?thesis
    by (cases "module d = ''merra2''") (auto simp: call_api_func_def bind_result_eq_Inr)
qed

text \<open>
  C8. When \<open>get_data\<close> returns, \<open>prepared\<close> is true if \<open>downloadedFiles\<close> equals
  \<open>totalFiles\<close> at that point, and is what it was before the call otherwise.
\<close>

theorem get_data_prepared:
  assumes "get_data d = Inr d'"
  shows "(downloadedFiles d' = totalFiles d' \<longrightarrow> prepared d') \<and>
         (downloadedFiles d' \<noteq> totalFiles d' \<longrightarrow> prepared d' = prepared d)"
proof -
  from assms obtain f d1 where
    d1: "call_api_func f d = Inr d1"
    and d': "d' = (if downloadedFiles d1 = totalFiles d1 then d1\<lparr> prepared := True \<rparr> else d1)"
    by (auto simp: get_data_def bind_result_eq_Inr)
  show ?thesis using d' call_api_func_keeps[OF d1]
    by (cases "downloadedFiles d1 = totalFiles d1") auto
qed

theorem get_data_prepared_witness:
  "get_data merra2_pending =
     Inr (merra2_pending\<lparr> toDownload := [],
            downloadedFiles := [(''by_month'', PyStr ''/d/202001.nc'')], prepared := True \<rparr>) \<and>
   prepared (merra2_pending\<lparr> toDownload := [],
            downloadedFiles := [(''by_month'', PyStr ''/d/202001.nc'')], prepared := True \<rparr>)"
proof -
  have run: "get_data merra2_pending =
     Inr (merra2_pending\<lparr> toDownload := [],
            downloadedFiles := [(''by_month'', PyStr ''/d/202001.nc'')], prepared := True \<rparr>)"
    by (simp add: get_data_def call_api_func_def cfg_get_def merra2_pending_def monthly_cfg_def
        fetch_all_def artifact_of_def)
  from get_data_prepared [OF run] run show ?thesis by (simp add: merra2_pending_def)
qed

section \<open>The scan of \<open>Dataset.__init__\<close>\<close>

lemma same_request_refl: "same_request d d"
  by (simp add: same_request_def)

lemma same_request_trans: "same_request a b \<Longrightarrow> same_request b c \<Longrightarrow> same_request a c"
  by (simp add: same_request_def)

lemma local_fn_same_request: "same_request d d' \<Longrightarrow> local_fn E d' key = local_fn E d key"
  by (simp add: same_request_def local_fn_def)

lemma scan_file_same_request:
  "scan_file fs cc f acq d = Inr d' \<Longrightarrow> same_request d d'"
  by (auto simp: scan_file_def Let_def same_request_def bind_result_eq_Inr split: if_splits)

lemma scan_file_totalFiles:
  "scan_file fs cc f acq d = Inr d' \<Longrightarrow> totalFiles d' = totalFiles d @ [(config d, f)]"
  by (auto simp: scan_file_def Let_def bind_result_eq_Inr split: if_splits)

lemma scan_file_scanned:
  "scan_file fs cc f acq d = Inr d' \<Longrightarrow> scanned fs cc d \<Longrightarrow> scanned fs cc d'"
  by (auto simp: scan_file_def Let_def scanned_def artifact_of_def bind_result_eq_Inr
      split: if_splits)

lemma map_result_Inr:
  "map_result f xs = Inr ys \<Longrightarrow> list_all2 (\<lambda>x y. f x = Inr y) xs ys"
  by (induction xs arbitrary: ys) (auto simp: bind_result_eq_Inr)

lemma for_each_appends:
  assumes "for_each body xs s = Inr s'" and "Q s"
    and step: "\<And>x s s'. Q s \<Longrightarrow> body x s = Inr s' \<Longrightarrow>
                 Q s' \<and> (\<exists>as. list_all2 R (keys x) as \<and> tot s' = tot s @ as)"
  shows "Q s' \<and> (\<exists>as. list_all2 R (concat (map keys xs)) as \<and> tot s' = tot s @ as)"
  using assms(1,2)
proof (induction xs arbitrary: s)
  case Nil
  then show ?case by simp
next
  case (Cons x xs)
  from Cons.prems(1) obtain s1 where s1: "body x s = Inr s1" and rest: "for_each body xs s1 = Inr s'"
    by (auto simp: bind_result_eq_Inr)
  from step[OF Cons.prems(2) s1] obtain as1 where
    q1: "Q s1" and as1: "list_all2 R (keys x) as1" "tot s1 = tot s @ as1" by blast
  from Cons.IH[OF rest q1] obtain as2 where
    q': "Q s'" and as2: "list_all2 R (concat (map keys xs)) as2" "tot s' = tot s1 @ as2" by blast
  have "list_all2 R (concat (map keys (x # xs))) (as1 @ as2)"
    using as1(1) as2(1) by (simp add: list_all2_appendI)
  moreover have "tot s' = tot s @ (as1 @ as2)" using as1(2) as2(2) by simp
  ultimately show ?case using q' by blast
qed

lemma scan_key:
  assumes run: "bind_result (local_fn E s key) (\<lambda>f. scan_file fs cc f acq s) = Inr s'"
    and inv: "scanning fs cc d0 s"
  shows "scanning fs cc d0 s' \<and>
         (\<exists>as. list_all2 (renders E d0) [key] as \<and> totalFiles s' = totalFiles s @ as)"
proof -
  from run obtain f where f: "local_fn E s key = Inr f" and sf: "scan_file fs cc f acq s = Inr s'"
    by (auto simp: bind_result_eq_Inr)
  from inv have sr: "same_request d0 s" and sc: "scanned fs cc s" by (simp_all add: scanning_def)
  have "scanning fs cc d0 s'"
    using same_request_trans[OF sr scan_file_same_request[OF sf]] scan_file_scanned[OF sf sc]
    by (simp add: scanning_def)
  moreover have "renders E d0 key (config s, f)"
    using f sr local_fn_same_request[OF sr, of E key] by (simp add: renders_def same_request_def)
  moreover have "totalFiles s' = totalFiles s @ [(config s, f)]"
    by (rule scan_file_totalFiles[OF sf])
  ultimately show ?thesis by auto
qed

lemma range_from_step1: "range_from a (b + 1) 1 = [a..b]"
proof (induction "nat (b + 1 - a)" arbitrary: a)
  case 0
  then show ?case by (simp add: range_from.simps [of a])
next
  case (Suc n)
  then have "n = nat (b + 1 - (a + 1))" and "a \<le> b" by linarith+
  with Suc.hyps(1) [of "a + 1"] show ?case
    by (simp add: range_from.simps [of a] upto_rec1)
qed

lemma monthrange_days_calendar:
  assumes "monthrange_days yr mo = Inr n"
  shows "n = days_in_month yr mo"
proof -
  from assms have "1 \<le> mo" "mo \<le> 12" by (auto simp: monthrange_days_def split: if_splits)
  then have "mo \<in> {1, 2, 3, 4, 5, 6, 7, 8, 9, 10, 11, 12}" by simp presburger
  with assms show ?thesis
    by (auto simp: monthrange_days_def mdays_def isleap_def days_in_month_def)
qed

lemma slice_range_values: "slice_range s = Inr (slice_values s)"
  by (simp add: slice_range_def slice_values_def py_range_def slice_step_def split: option.splits)

lemma scan_month_step:
  assumes "scanning fs cc d0 s" and "scan_month E fs cc shape mt s = Inr s'"
  shows "scanning fs cc d0 s' \<and>
         (\<exists>as. list_all2 (renders E d0) [case mt of (yr, mo) \<Rightarrow> [yr, mo]] as \<and>
               totalFiles s' = totalFiles s @ as)"
  using assms scan_key [of E s "case mt of (yr, mo) \<Rightarrow> [yr, mo]" fs cc _ s' d0]
  by (cases mt) (simp add: scan_month_def)

lemma scan_year_step:
  assumes "scanning fs cc d0 s" and "scan_year E fs cc yr s = Inr s'"
  shows "scanning fs cc d0 s' \<and>
         (\<exists>as. list_all2 (renders E d0) [[yr]] as \<and> totalFiles s' = totalFiles s @ as)"
  using assms scan_key [of E s "[yr]" fs cc _ s' d0]
  by (simp add: scan_year_def)

lemma scan_days_step:
  assumes inv: "scanning fs cc d0 s" and run: "scan_days E fs cc shape mt s = Inr s'"
  shows "scanning fs cc d0 s' \<and>
         (\<exists>as. list_all2 (renders E d0)
                  (case mt of (yr, mo, n) \<Rightarrow> map (\<lambda>day. [yr, mo, day]) [1..n]) as \<and>
               totalFiles s' = totalFiles s @ as)"
proof -
  obtain yr mo n where mt: "mt = (yr, mo, n)" by (cases mt)
  let ?body = "\<lambda>day d'. bind_result (local_fn E d' [yr, mo, day]) (\<lambda>filename.
                 scan_file fs cc filename (shape E d' [yr, mo, day]) d')"
  from run have loop: "for_each ?body [1..n] s = Inr s'"
    by (simp add: mt scan_days_def py_range_def range_from_step1)
  have "scanning fs cc d0 s' \<and>
        (\<exists>as. list_all2 (renders E d0) (concat (map (\<lambda>day. [[yr, mo, day]]) [1..n])) as \<and>
              totalFiles s' = totalFiles s @ as)"
  proof (rule for_each_appends [where Q = "scanning fs cc d0" and R = "renders E d0"
        and keys = "\<lambda>day. [[yr, mo, day]]" and tot = totalFiles, OF loop inv])
    fix day t t'
    assume "scanning fs cc d0 t" and "?body day t = Inr t'"
    then show "scanning fs cc d0 t' \<and>
        (\<exists>as. list_all2 (renders E d0) [[yr, mo, day]] as \<and> totalFiles t' = totalFiles t @ as)"
      using scan_key [of E t "[yr, mo, day]" fs cc _ t' d0] by simp
  qed
  then show ?thesis by (simp add: mt)
qed

lemma list_all2_function:
  "list_all2 (\<lambda>x y. f x = Inr y) xs ys \<Longrightarrow> (\<And>x y. f x = Inr y \<Longrightarrow> y = g x) \<Longrightarrow> ys = map g xs"
  by (induction rule: list_all2_induct) auto

lemma daily_mo_tuples_Inr:
  assumes "daily_mo_tuples yrs mos = Inr mts"
  shows "mts = map (\<lambda>(yr, mo). (yr, mo, days_in_month yr mo)) (monthly_keys yrs mos)"
proof (rule list_all2_function)
  show "list_all2 (\<lambda>x y. (case x of (yr, mo) \<Rightarrow>
            bind_result (monthrange_days yr mo) (\<lambda>n. Inr (yr, mo, n))) = Inr y)
          (monthly_keys yrs mos) mts"
    using assms unfolding daily_mo_tuples_def monthly_keys_def by (rule map_result_Inr)
next
  fix x :: "int \<times> int" and y
  assume "(case x of (yr, mo) \<Rightarrow> bind_result (monthrange_days yr mo) (\<lambda>n. Inr (yr, mo, n))) = Inr y"
  then show "y = (case x of (yr, mo) \<Rightarrow> (yr, mo, days_in_month yr mo))"
    by (cases x) (auto simp: bind_result_eq_Inr dest: monthrange_days_calendar)
qed

lemma daily_keys_concat:
  "concat (map (\<lambda>(yr, mo, n). map (\<lambda>day. [yr, mo, day]) [1..n])
     (map (\<lambda>(yr, mo). (yr, mo, days_in_month yr mo)) (monthly_keys yrs mos))) =
   map (\<lambda>(yr, mo, day). [yr, mo, day]) (daily_keys yrs mos)"
  unfolding monthly_keys_def daily_keys_def
  by (induction yrs) (simp_all add: map_concat comp_def)

lemma monthly_keys_concat:
  "concat (map (\<lambda>(yr, mo). [[yr, mo]]) (monthly_keys yrs mos)) =
   map (\<lambda>(yr, mo). [yr, mo]) (monthly_keys yrs mos)"
  by (induction "monthly_keys yrs mos") (auto simp: split_def)

lemma daily_loop:
  assumes inv: "scanning fs cc d0 d"
    and run: "bind_result (daily_mo_tuples yrs mos) (\<lambda>mo_tuples.
                for_each (scan_days E fs cc shape) mo_tuples d) = Inr d'"
  shows "scanning fs cc d0 d' \<and>
         (\<exists>as. list_all2 (renders E d0) (map (\<lambda>(yr, mo, day). [yr, mo, day]) (daily_keys yrs mos)) as \<and>
               totalFiles d' = totalFiles d @ as)"
proof -
  from run obtain mts where mts: "daily_mo_tuples yrs mos = Inr mts"
    and loop: "for_each (scan_days E fs cc shape) mts d = Inr d'"
    by (auto simp: bind_result_eq_Inr)
  have "scanning fs cc d0 d' \<and>
        (\<exists>as. list_all2 (renders E d0)
           (concat (map (\<lambda>(yr, mo, n). map (\<lambda>day. [yr, mo, day]) [1..n]) mts)) as \<and>
         totalFiles d' = totalFiles d @ as)"
    by (rule for_each_appends [where Q = "scanning fs cc d0" and R = "renders E d0"
          and tot = totalFiles, OF loop inv]) (rule scan_days_step)
  then show ?thesis
    by (simp only: daily_mo_tuples_Inr [OF mts] daily_keys_concat)
qed

lemma monthly_loop:
  assumes inv: "scanning fs cc d0 d"
    and loop: "for_each (scan_month E fs cc shape) (monthly_mo_tuples yrs mos) d = Inr d'"
  shows "scanning fs cc d0 d' \<and>
         (\<exists>as. list_all2 (renders E d0) (map (\<lambda>(yr, mo). [yr, mo]) (monthly_keys yrs mos)) as \<and>
               totalFiles d' = totalFiles d @ as)"
proof -
  have "scanning fs cc d0 d' \<and>
        (\<exists>as. list_all2 (renders E d0)
           (concat (map (\<lambda>mt. [case mt of (yr, mo) \<Rightarrow> [yr, mo]]) (monthly_mo_tuples yrs mos))) as \<and>
         totalFiles d' = totalFiles d @ as)"
    by (rule for_each_appends [where Q = "scanning fs cc d0" and R = "renders E d0"
          and tot = totalFiles, OF loop inv]) (rule scan_month_step)
  then show ?thesis
    by (simp add: monthly_mo_tuples_def monthly_keys_def [symmetric] split_def)
qed

lemma yearly_loop:
  assumes inv: "scanning fs cc d0 d"
    and loop: "for_each (scan_year E fs cc) yrs d = Inr d'"
  shows "scanning fs cc d0 d' \<and>
         (\<exists>as. list_all2 (renders E d0) (map (\<lambda>yr. [yr]) yrs) as \<and>
               totalFiles d' = totalFiles d @ as)"
proof -
  have "scanning fs cc d0 d' \<and>
        (\<exists>as. list_all2 (renders E d0) (concat (map (\<lambda>yr. [[yr]]) yrs)) as \<and>
         totalFiles d' = totalFiles d @ as)"
    by (rule for_each_appends [where Q = "scanning fs cc d0" and R = "renders E d0"
          and tot = totalFiles, OF loop inv]) (rule scan_year_step)
  then show ?thesis by simp
qed

lemma scan_branch_result:
  assumes inv: "scanning fs cc d0 d"
    and g: "file_granularity (weatherconfig d0) = Some g"
    and run: "scan_branch E fs cc g (slice_values (years d0)) (slice_values (months d0)) d = Inr d'"
  shows "scanning fs cc d0 d' \<and>
         (\<exists>as. list_all2 (renders E d0) (expected_keys d0) as \<and> totalFiles d' = totalFiles d @ as)"
proof -
  from inv have cfg: "config d = config d0" by (simp add: scanning_def same_request_def)
  consider (daily) "g = ''daily'' \<or> g = ''dailymeans''" | (daily2) "g = ''daily_multiple''"
    | (monthly) "g = ''monthly''" | (monthly2) "g = ''monthly_multiple''"
    | (other) "g \<notin> {''daily'', ''dailymeans'', ''daily_multiple'', ''monthly'', ''monthly_multiple''}"
    by auto
  then show ?thesis
  proof cases
    case daily
    with run daily_loop [OF inv, of _ _ E single_url d'] show ?thesis
      by (auto simp: scan_branch_def expected_keys_def g)
  next
    case daily2
    with run daily_loop [OF inv, of _ _ E url_pair d'] show ?thesis
      by (auto simp: scan_branch_def expected_keys_def g)
  next
    case monthly
    with run monthly_loop [OF inv, of E monthly_shape _ _ d'] show ?thesis
      by (auto simp: scan_branch_def expected_keys_def g)
  next
    case monthly2
    with run monthly_loop [OF inv, of E url_pair _ _ d'] show ?thesis
      by (auto simp: scan_branch_def expected_keys_def g)
  next
    case other
    show ?thesis
    proof (cases "config d0 = ''modis_land_cover''")
      case True
      with other run yearly_loop [OF inv, of E _ d'] show ?thesis
        by (auto simp: scan_branch_def expected_keys_def g cfg)
    next
      case False
      with other run inv show ?thesis
        by (auto simp: scan_branch_def expected_keys_def g cfg)
    qed
  qed
qed

lemma init_scan_result:
  assumes run: "init_scan E fs d1 = Inr d2"
    and fresh: "totalFiles d1 = []" "toDownload d1 = []" "downloadedFiles d1 = []" "\<not> prepared d1"
  shows "scanning fs (isdir fs (datadir d1)) d1 d2 \<and>
         list_all2 (renders E d1) (expected_keys d1) (totalFiles d2)"
proof -
  define cc where "cc = isdir fs (datadir d1)"
  define d where "d = (if cc
               then d1\<lparr> logged := logged d1 @ [InfoDirFound (datadir d1)], prepared := True \<rparr>
               else d1\<lparr> logged := logged d1 @ [InfoDirNotFound (datadir d1)] \<rparr>)"
  have same: "years d = years d1" "months d = months d1" "weatherconfig d = weatherconfig d1"
    by (simp_all add: d_def)
  have inv: "scanning fs cc d1 d" and tot: "totalFiles d = []"
    using fresh by (simp_all add: d_def scanning_def same_request_def scanned_def)
  from run obtain g where g: "file_granularity (weatherconfig d1) = Some g"
    and br: "scan_branch E fs cc g (slice_values (years d1)) (slice_values (months d1)) d = Inr d2"
    unfolding init_scan_def Let_def cc_def [symmetric] d_def [symmetric]
    by (auto simp: bind_result_eq_Inr slice_range_values cfg_get_def same split: option.splits)
  from scan_branch_result [OF inv g br] tot show ?thesis by (auto simp: cc_def)
qed

section \<open>Construction as a whole\<close>

lemma init_request_fresh:
  assumes "init_request E p = Inr d0"
  shows "totalFiles d0 = [] \<and> toDownload d0 = [] \<and> downloadedFiles d0 = [] \<and> \<not> prepared d0 \<and>
         bounds d0 = None \<and> params_xs d0 = p_xs p \<and> params_ys d0 = p_ys p \<and>
         p_weather_data_config p = Some (config d0) \<and> p_years p = Some (years d0) \<and>
         datadir d0 = module_datadir (dataset_module d0) \<and>
         WarnBoundsNotUsed \<notin> set (logged d0)"
  using assms
  by (auto simp: init_request_def Let_def bind_result_eq_Inr cfg_get_def
      split: option.splits if_splits)

lemma init_bounds_keeps:
  assumes "init_bounds p d0 = Inr d1"
  shows "same_request (d1\<lparr> bounds := bounds d0, params_xs := params_xs d0, params_ys := params_ys d0 \<rparr>) d0 \<and>
         totalFiles d1 = totalFiles d0 \<and> toDownload d1 = toDownload d0 \<and>
         downloadedFiles d1 = downloadedFiles d0 \<and> prepared d1 = prepared d0"
  using assms
  by (auto simp: init_bounds_def same_request_def
      split: option.splits bounds_value.splits list.splits if_splits)

lemma init_report_keeps:
  "same_request d (init_report d) \<and> totalFiles (init_report d) = totalFiles d \<and>
   toDownload (init_report d) = toDownload d \<and> downloadedFiles (init_report d) = downloadedFiles d \<and>
   prepared (init_report d) = prepared d"
  by (simp add: init_report_def same_request_def Let_def)

lemma Dataset_init_Inr:
  "Dataset_init E fs p = Inr d \<longleftrightarrow>
     (\<exists>d0 d1 d2. init_request E p = Inr d0 \<and> init_bounds p d0 = Inr d1 \<and>
        init_scan E fs d1 = Inr d2 \<and> d = init_report d2)"
  by (auto simp: Dataset_init_def bind_result_eq_Inr)

lemma renders_same_request: "same_request d d' \<Longrightarrow> renders E d' = renders E d"
  by (auto simp: fun_eq_iff renders_def same_request_def local_fn_def)

lemma expected_keys_same_request: "same_request d d' \<Longrightarrow> expected_keys d' = expected_keys d"
  by (auto simp: expected_keys_def same_request_def Let_def)

lemma scanned_cong:
  "totalFiles d' = totalFiles d \<Longrightarrow> toDownload d' = toDownload d \<Longrightarrow>
   downloadedFiles d' = downloadedFiles d \<Longrightarrow> prepared d' = prepared d \<Longrightarrow>
   scanned fs cc d' = scanned fs cc d"
  by (simp add: scanned_def)

lemma Dataset_init_scanned:
  assumes "Dataset_init E fs p = Inr d"
  shows "scanned fs (isdir fs (datadir d)) d \<and>
         list_all2 (renders E d) (expected_keys d) (totalFiles d)"
proof -
  from assms obtain d0 d1 d2 where d0: "init_request E p = Inr d0"
    and d1: "init_bounds p d0 = Inr d1" and d2: "init_scan E fs d1 = Inr d2"
    and d: "d = init_report d2"
    by (auto simp: Dataset_init_Inr)
  from init_request_fresh [OF d0] init_bounds_keeps [OF d1]
  have fresh: "totalFiles d1 = []" "toDownload d1 = []" "downloadedFiles d1 = []" "\<not> prepared d1"
    by simp_all
  from init_scan_result [OF d2 fresh]
  have sc: "scanning fs (isdir fs (datadir d1)) d1 d2"
    and keys: "list_all2 (renders E d1) (expected_keys d1) (totalFiles d2)" by simp_all
  from sc init_report_keeps [of d2] have req: "same_request d1 d"
    unfolding d scanning_def by (blast intro: same_request_trans)
  then have dir: "datadir d = datadir d1" by (simp add: same_request_def)
  have "scanned fs (isdir fs (datadir d1)) d"
    using sc init_report_keeps [of d2] unfolding d scanning_def
    by (simp add: scanned_def)
  moreover have "list_all2 (renders E d) (expected_keys d) (totalFiles d)"
    using keys init_report_keeps [of d2]
    unfolding renders_same_request [OF req] expected_keys_same_request [OF req]
    by (simp add: d)
  ultimately show ?thesis by (simp add: dir)
qed

section \<open>Where the \<open>ValueError\<close>s of the class can come from\<close>

lemma raises_own_ValueError_simps [simp]:
  "\<not> raises_own_ValueError (Inr x)"
  "raises_own_ValueError (Inl (ValueError v))"
  "\<not> raises_own_ValueError (Inl (KeyError k))"
  "\<not> raises_own_ValueError (Inl (AttributeError k))"
  "\<not> raises_own_ValueError (Inl IndexError)"
  "\<not> raises_own_ValueError (Inl (IllegalMonthError m))"
  "\<not> raises_own_ValueError (Inl (FormatMapRaised fe))"
  "\<not> raises_own_ValueError (Inl (ApiRaised k))"
  by (simp_all add: raises_own_ValueError_def)

lemma raises_own_ValueError_bind:
  "raises_own_ValueError (bind_result x f) \<longleftrightarrow>
     raises_own_ValueError x \<or> (\<exists>v. x = Inr v \<and> raises_own_ValueError (f v))"
  by (cases x) (auto simp: raises_own_ValueError_def)

lemma for_each_no_own_ValueError:
  "(\<And>x s. \<not> raises_own_ValueError (body x s)) \<Longrightarrow> \<not> raises_own_ValueError (for_each body xs s)"
  by (induction xs arbitrary: s) (auto simp: raises_own_ValueError_bind)

lemma map_result_no_own_ValueError:
  "(\<And>x. \<not> raises_own_ValueError (f x)) \<Longrightarrow> \<not> raises_own_ValueError (map_result f xs)"
  by (induction xs) (auto simp: raises_own_ValueError_bind)

lemma datasetfn_no_own_ValueError [simp]: "\<not> raises_own_ValueError (datasetfn M E tmpl key)"
  by (induction M E tmpl key rule: datasetfn.induct)
    (auto simp: datasetfn_fill_def Let_def split: cfg_value.splits sum.splits)

lemma cfg_get_no_own_ValueError [simp]: "\<not> raises_own_ValueError (cfg_get k x)"
  by (auto simp: cfg_get_def split: option.splits)

lemma attr_get_no_own_ValueError [simp]: "\<not> raises_own_ValueError (attr_get k x)"
  by (auto simp: attr_get_def split: option.splits)

lemma cfg_index_no_own_ValueError [simp]: "\<not> raises_own_ValueError (cfg_index u i)"
  by (auto simp: cfg_index_def split: cfg_value.splits)

lemma local_fn_no_own_ValueError [simp]: "\<not> raises_own_ValueError (local_fn E d key)"
  by (simp add: local_fn_def raises_own_ValueError_bind)

lemma single_url_no_own_ValueError [simp]: "\<not> raises_own_ValueError (single_url E d key)"
  by (simp add: single_url_def raises_own_ValueError_bind)

lemma url_pair_no_own_ValueError [simp]: "\<not> raises_own_ValueError (url_pair E d key)"
  by (simp add: url_pair_def raises_own_ValueError_bind)

lemma monthly_shape_no_own_ValueError [simp]: "\<not> raises_own_ValueError (monthly_shape E d key)"
  by (simp add: monthly_shape_def)

lemma modis_shape_no_own_ValueError [simp]: "\<not> raises_own_ValueError (modis_shape E d key)"
  by (simp add: modis_shape_def raises_own_ValueError_bind)

lemma scan_file_no_own_ValueError:
  "\<not> raises_own_ValueError acq \<Longrightarrow> \<not> raises_own_ValueError (scan_file fs cc f acq d)"
  by (simp add: scan_file_def Let_def raises_own_ValueError_bind)

lemma scan_month_no_own_ValueError:
  "(\<And>d key. \<not> raises_own_ValueError (shape E d key)) \<Longrightarrow>
   \<not> raises_own_ValueError (scan_month E fs cc shape mt d)"
  by (cases mt) (simp add: scan_month_def raises_own_ValueError_bind scan_file_no_own_ValueError)

lemma scan_year_no_own_ValueError: "\<not> raises_own_ValueError (scan_year E fs cc yr d)"
  by (simp add: scan_year_def raises_own_ValueError_bind scan_file_no_own_ValueError)

lemma scan_days_no_own_ValueError:
  assumes "\<And>d key. \<not> raises_own_ValueError (shape E d key)"
  shows "\<not> raises_own_ValueError (scan_days E fs cc shape mt d)"
proof -
  obtain yr mo n where mt: "mt = (yr, mo, n)" by (cases mt)
  show ?thesis
    unfolding mt scan_days_def
    by (simp add: py_range_def,
        rule for_each_no_own_ValueError,
        simp add: raises_own_ValueError_bind scan_file_no_own_ValueError assms)
qed

lemma daily_mo_tuples_no_own_ValueError: "\<not> raises_own_ValueError (daily_mo_tuples yrs mos)"
  unfolding daily_mo_tuples_def
  by (rule map_result_no_own_ValueError)
    (auto simp: raises_own_ValueError_bind monthrange_days_def split: if_splits)

lemma scan_branch_no_own_ValueError: "\<not> raises_own_ValueError (scan_branch E fs cc g yrs mos d)"
  by (simp add: scan_branch_def raises_own_ValueError_bind daily_mo_tuples_no_own_ValueError
      for_each_no_own_ValueError scan_days_no_own_ValueError scan_month_no_own_ValueError
      scan_year_no_own_ValueError)

lemma init_scan_no_own_ValueError: "\<not> raises_own_ValueError (init_scan E fs d)"
  by (simp add: init_scan_def Let_def raises_own_ValueError_bind slice_range_values
      scan_branch_no_own_ValueError)

section \<open>The log and the bounds check\<close>









lemma Dataset_init_Inl:
  "init_request E p = Inr d0 \<Longrightarrow>
   raises_own_ValueError (Dataset_init E fs p) = raises_own_ValueError (init_bounds p d0)"
  by (auto simp: Dataset_init_def raises_own_ValueError_bind init_scan_no_own_ValueError)

lemma four_element_list_iff:
  "four_element_list b \<longleftrightarrow> (\<exists>x1 y1 x2 y2. b = ListValue [x1, y1, x2, y2])"
  by (cases b) (auto simp: four_element_list_def length_Suc_conv eval_nat_numeral)

lemma init_bounds_raises:
  "raises_own_ValueError (init_bounds p d0) \<longleftrightarrow>
     (case p_bounds p of Some b \<Rightarrow> \<not> four_element_list b
      | None \<Rightarrow> config d0 = ''modis_land_cover'')"
  by (auto simp: init_bounds_def four_element_list_iff
      split: option.splits bounds_value.splits list.splits)


lemmas init_defs =
  Dataset_init_def init_request_def init_bounds_def init_scan_def scan_branch_def init_report_def
  scan_days_def scan_month_def scan_year_def scan_file_def local_fn_def single_url_def
  url_pair_def monthly_shape_def modis_shape_def daily_mo_tuples_def monthly_mo_tuples_def
  monthrange_days_def mdays_def isleap_def slice_range_def slice_step_def py_range_def
  cfg_get_def attr_get_def cfg_index_def datasetfn_fill_def Let_def range_from.simps

lemmas sample_defs =
  sample_env_def sample_module_def era5_module_def era5_underscore_def daily_cfg_def
  monthly_cfg_def yearly_cfg_def fs_nothing_def fs_everything_def fs_without_def request_def
  render_field_def str_int_def zero_fill_def str_digit_def str_nat.simps

section \<open>The claims about the scan\<close>

text \<open>
  C1, as the code has it. After a construction that succeeds, \<open>prepared\<close> is true if and
  only if the data directory exists and \<open>toDownload\<close> is empty.
\<close>

theorem prepared_iff_directory_and_nothing_missing:
  assumes "Dataset_init E fs p = Inr d"
  shows "prepared d \<longleftrightarrow> isdir fs (datadir d) \<and> toDownload d = []"
  using Dataset_init_scanned [OF assms] by (simp add: scanned_def)

text \<open>
  C1, as stated, fails where the directory does not exist and nothing is enumerated: for
  the granularity \<open>yearly\<close> and no directory, \<open>toDownload\<close> is empty and \<open>prepared\<close> is
  false.
\<close>

theorem prepared_false_with_nothing_missing:
  "Dataset_init sample_env fs_nothing
     (request ''sample'' ''by_year'' (Slice 2020 2020 None) (Slice 1 12 None) None) =
   Inr \<lparr> module = ''sample'', config = ''by_year'', dataset_module = sample_module,
         weatherconfig = yearly_cfg, datadir = ''/d'', years = Slice 2020 2020 None,
         months = Slice 1 12 None, bounds = None, prepared = False, toDownload = [],
         downloadedFiles = [], totalFiles = [], params_xs = None, params_ys = None,
         incomplete_count = 0,
         logged = [WarnBoundsNotUsed, InfoDirNotFound ''/d'', WarnXsYsNotUsed,
                   InfoNotCompleted 0] \<rparr>"
  by (simp add: init_defs sample_defs)

theorem prepared_iff_directory_and_nothing_missing_witness:
  "Dataset_init sample_env fs_everything
     (request ''sample'' ''by_month'' (Slice 2020 2020 None) (Slice 1 1 None) None) =
   Inr \<lparr> module = ''sample'', config = ''by_month'', dataset_module = sample_module,
         weatherconfig = monthly_cfg, datadir = ''/d'', years = Slice 2020 2020 None,
         months = Slice 1 1 None, bounds = None, prepared = True, toDownload = [],
         downloadedFiles = [(''by_month'', PyStr ''/d/202001.nc'')],
         totalFiles = [(''by_month'', PyStr ''/d/202001.nc'')],
         params_xs = None, params_ys = None, incomplete_count = 0,
         logged = [WarnBoundsNotUsed, InfoDirFound ''/d'', InfoDirComplete] \<rparr> \<and>
   isdir fs_everything ''/d''"
proof -
  let ?d = "\<lparr> module = ''sample'', config = ''by_month'', dataset_module = sample_module,
         weatherconfig = monthly_cfg, datadir = ''/d'', years = Slice 2020 2020 None,
         months = Slice 1 1 None, bounds = None, prepared = True, toDownload = [],
         downloadedFiles = [(''by_month'', PyStr ''/d/202001.nc'')],
         totalFiles = [(''by_month'', PyStr ''/d/202001.nc'')],
         params_xs = None, params_ys = None, incomplete_count = 0,
         logged = [WarnBoundsNotUsed, InfoDirFound ''/d'', InfoDirComplete] \<rparr>"
  have run: "Dataset_init sample_env fs_everything
     (request ''sample'' ''by_month'' (Slice 2020 2020 None) (Slice 1 1 None) None) = Inr ?d"
    by (simp add: init_defs sample_defs)
  from prepared_iff_directory_and_nothing_missing [OF run] run show ?thesis by simp
qed

text \<open>
  C2. After a construction that succeeds, \<open>downloadedFiles\<close> holds the files of
  \<open>totalFiles\<close> that are on disk and \<open>toDownload\<close>, without its acquisition fields, the
  files that are not, each in the order of \<open>totalFiles\<close>: together they are all of
  \<open>totalFiles\<close>, and no artifact is in both.
\<close>

theorem scan_partitions_totalFiles:
  assumes "Dataset_init E fs p = Inr d"
  shows "downloadedFiles d = filter (\<lambda>a. isfile fs (snd a)) (totalFiles d) \<and>
         map artifact_of (toDownload d) = filter (\<lambda>a. \<not> isfile fs (snd a)) (totalFiles d) \<and>
         set (downloadedFiles d) \<union> set (map artifact_of (toDownload d)) = set (totalFiles d) \<and>
         set (downloadedFiles d) \<inter> set (map artifact_of (toDownload d)) = {}"
proof -
  from Dataset_init_scanned [OF assms]
  have present: "downloadedFiles d = filter (\<lambda>a. isfile fs (snd a)) (totalFiles d)"
    and missing: "map artifact_of (toDownload d) = filter (\<lambda>a. \<not> isfile fs (snd a)) (totalFiles d)"
    by (simp_all add: scanned_def)
  show ?thesis unfolding present missing by auto
qed

theorem scan_partitions_totalFiles_witness:
  "Dataset_init sample_env (fs_without ''/d/202002.nc'')
     (request ''sample'' ''by_month'' (Slice 2020 2020 None) (Slice 1 2 None) None) =
   Inr \<lparr> module = ''sample'', config = ''by_month'', dataset_module = sample_module,
         weatherconfig = monthly_cfg, datadir = ''/d'', years = Slice 2020 2020 None,
         months = Slice 1 2 None, bounds = None, prepared = False,
         toDownload = [(''by_month'', PyStr ''/d/202002.nc'', Url (PyStr ''http://h/2020/02''))],
         downloadedFiles = [(''by_month'', PyStr ''/d/202001.nc'')],
         totalFiles = [(''by_month'', PyStr ''/d/202001.nc''), (''by_month'', PyStr ''/d/202002.nc'')],
         params_xs = None, params_ys = None, incomplete_count = 1,
         logged = [WarnBoundsNotUsed, InfoDirFound ''/d'',
                   InfoFileNotFound (PyStr ''/d/202002.nc''), WarnXsYsNotUsed,
                   InfoNotCompleted 1] \<rparr> \<and>
   {(''by_month'', PyStr ''/d/202001.nc'')} \<union> {(''by_month'', PyStr ''/d/202002.nc'')} =
   {(''by_month'', PyStr ''/d/202001.nc''), (''by_month'', PyStr ''/d/202002.nc'')}"
proof -
  let ?d = "\<lparr> module = ''sample'', config = ''by_month'', dataset_module = sample_module,
         weatherconfig = monthly_cfg, datadir = ''/d'', years = Slice 2020 2020 None,
         months = Slice 1 2 None, bounds = None, prepared = False,
         toDownload = [(''by_month'', PyStr ''/d/202002.nc'', Url (PyStr ''http://h/2020/02''))],
         downloadedFiles = [(''by_month'', PyStr ''/d/202001.nc'')],
         totalFiles = [(''by_month'', PyStr ''/d/202001.nc''), (''by_month'', PyStr ''/d/202002.nc'')],
         params_xs = None, params_ys = None, incomplete_count = 1,
         logged = [WarnBoundsNotUsed, InfoDirFound ''/d'',
                   InfoFileNotFound (PyStr ''/d/202002.nc''), WarnXsYsNotUsed,
                   InfoNotCompleted 1] \<rparr>"
  have run: "Dataset_init sample_env (fs_without ''/d/202002.nc'')
     (request ''sample'' ''by_month'' (Slice 2020 2020 None) (Slice 1 2 None) None) = Inr ?d"
    by (simp add: init_defs sample_defs)
  from scan_partitions_totalFiles [OF run] run show ?thesis
    by (simp add: artifact_of_def)
qed

lemma init_scan_nothing:
  assumes "file_granularity (weatherconfig d1) = Some g"
    and "g \<notin> {''daily'', ''dailymeans'', ''daily_multiple'', ''monthly'', ''monthly_multiple''}"
    and "config d1 \<noteq> ''modis_land_cover''"
  shows "init_scan E fs d1 =
     Inr (if isdir fs (datadir d1)
          then d1\<lparr> logged := logged d1 @ [InfoDirFound (datadir d1)], prepared := True \<rparr>
          else d1\<lparr> logged := logged d1 @ [InfoDirNotFound (datadir d1)] \<rparr>)"
  using assms
  by (cases "isdir fs (datadir d1)")
    (simp_all add: init_scan_def Let_def slice_range_values cfg_get_def scan_branch_def)

text \<open>
  C9. For a request that passes the checks of lines 47-98 (module and configuration
  given and found, years given, bounds absent or a list of four), with a configured
  granularity that is none of the five and a configuration that is not
  \<open>modis_land_cover\<close>, construction succeeds, the three lists are empty, and \<open>prepared\<close>
  is whether the data directory exists.
\<close>

theorem no_known_granularity_scans_nothing:
  assumes "p_module p = Some mname" and "p_weather_data_config p = Some cfg"
    and "sys_modules E (''geodata.datasets.'' @ mname) = Some M"
    and "weather_data_config M cfg = Some wc"
    and "p_years p = Some yrs"
    and "p_bounds p = None \<or> (\<exists>n w s e. p_bounds p = Some (ListValue [n, w, s, e]))"
    and "file_granularity wc = Some g"
    and "g \<notin> {''daily'', ''dailymeans'', ''daily_multiple'', ''monthly'', ''monthly_multiple''}"
    and "cfg \<noteq> ''modis_land_cover''"
  shows "\<exists>d. Dataset_init E fs p = Inr d \<and> totalFiles d = [] \<and> downloadedFiles d = [] \<and>
             toDownload d = [] \<and> prepared d = isdir fs (module_datadir M)"
proof -
  obtain d0 where d0: "init_request E p = Inr d0"
    and f0: "config d0 = cfg" "weatherconfig d0 = wc" "datadir d0 = module_datadir M"
      "totalFiles d0 = []" "downloadedFiles d0 = []" "toDownload d0 = []" "\<not> prepared d0"
    using assms(1-5,7)
    by (cases "p_months p") (auto simp: init_request_def Let_def cfg_get_def)
  obtain d1 where d1: "init_bounds p d0 = Inr d1"
    and f1: "config d1 = cfg" "weatherconfig d1 = wc" "datadir d1 = module_datadir M"
      "totalFiles d1 = []" "downloadedFiles d1 = []" "toDownload d1 = []" "\<not> prepared d1"
    using assms(6,9) f0 by (auto simp: init_bounds_def)
  obtain d2 where d2: "init_scan E fs d1 = Inr d2"
    and f2: "totalFiles d2 = []" "downloadedFiles d2 = []" "toDownload d2 = []"
      "prepared d2 = isdir fs (module_datadir M)"
    using assms(7,8,9) f1 init_scan_nothing [of d1 g E fs] by simp
  have "Dataset_init E fs p = Inr (init_report d2)"
    by (simp add: Dataset_init_def d0 d1 d2)
  with f2 init_report_keeps [of d2] show ?thesis by simp
qed

theorem no_known_granularity_scans_nothing_witness:
  "Dataset_init sample_env fs_everything
     (request ''sample'' ''by_year'' (Slice 2020 2021 None) (Slice 1 12 None)
        (Some (ListValue [50, -1, 49, 1]))) =
   Inr \<lparr> module = ''sample'', config = ''by_year'', dataset_module = sample_module,
         weatherconfig = yearly_cfg, datadir = ''/d'', years = Slice 2020 2021 None,
         months = Slice 1 12 None, bounds = Some (ListValue [50, -1, 49, 1]),
         prepared = True, toDownload = [], downloadedFiles = [], totalFiles = [],
         params_xs = Some (Slice 50 49 None), params_ys = Some (Slice 1 (-1) None),
         incomplete_count = 0, logged = [InfoDirFound ''/d'', InfoDirComplete] \<rparr> \<and>
   isdir fs_everything (module_datadir sample_module)"
proof -
  let ?p = "request ''sample'' ''by_year'' (Slice 2020 2021 None) (Slice 1 12 None)
        (Some (ListValue [50, -1, 49, 1]))"
  have run: "Dataset_init sample_env fs_everything ?p =
   Inr \<lparr> module = ''sample'', config = ''by_year'', dataset_module = sample_module,
         weatherconfig = yearly_cfg, datadir = ''/d'', years = Slice 2020 2021 None,
         months = Slice 1 12 None, bounds = Some (ListValue [50, -1, 49, 1]),
         prepared = True, toDownload = [], downloadedFiles = [], totalFiles = [],
         params_xs = Some (Slice 50 49 None), params_ys = Some (Slice 1 (-1) None),
         incomplete_count = 0, logged = [InfoDirFound ''/d'', InfoDirComplete] \<rparr>"
    by (simp add: init_defs sample_defs)
  have "\<exists>d. Dataset_init sample_env fs_everything ?p = Inr d \<and> totalFiles d = [] \<and>
          downloadedFiles d = [] \<and> toDownload d = [] \<and>
          prepared d = isdir fs_everything (module_datadir sample_module)"
    by (rule no_known_granularity_scans_nothing [where mname = "''sample''" and cfg = "''by_year''"
          and wc = yearly_cfg and g = "''yearly''" and yrs = "Slice 2020 2021 None"])
      (simp_all add: sample_defs)
  with run show ?thesis by simp
qed

section \<open>The claim about the bounds check\<close>








section \<open>The claims about the enumeration\<close>

lemma same_request_sym: "same_request a b \<Longrightarrow> same_request b a"
  by (simp add: same_request_def)

lemma Dataset_init_same_request:
  assumes "Dataset_init E fs p = Inr d"
  shows "\<exists>d0 d1. init_request E p = Inr d0 \<and> init_bounds p d0 = Inr d1 \<and> same_request d1 d"
proof -
  from assms obtain d0 d1 d2 where d0: "init_request E p = Inr d0"
    and d1: "init_bounds p d0 = Inr d1" and d2: "init_scan E fs d1 = Inr d2"
    and d: "d = init_report d2"
    by (auto simp: Dataset_init_Inr)
  from init_request_fresh [OF d0] init_bounds_keeps [OF d1]
  have fresh: "totalFiles d1 = []" "toDownload d1 = []" "downloadedFiles d1 = []" "\<not> prepared d1"
    by simp_all
  from init_scan_result [OF d2 fresh] init_report_keeps [of d2]
  have "same_request d1 d" unfolding d scanning_def by (blast intro: same_request_trans)
  with d0 d1 show ?thesis by blast
qed

lemma Dataset_init_request:
  assumes "Dataset_init E fs p = Inr d"
  shows "p_years p = Some (years d) \<and> p_weather_data_config p = Some (config d) \<and>
         p_module p = Some (module d) \<and>
         sys_modules E (''geodata.datasets.'' @ module d) = Some (dataset_module d) \<and>
         weather_data_config (dataset_module d) (config d) = Some (weatherconfig d) \<and>
         (\<forall>mos. p_months p = Some mos \<longrightarrow> months d = mos)"
proof -
  from Dataset_init_same_request [OF assms] obtain d0 d1 where d0: "init_request E p = Inr d0"
    and d1: "init_bounds p d0 = Inr d1" and req: "same_request d1 d" by blast
  from d0 have "p_years p = Some (years d0) \<and> p_weather_data_config p = Some (config d0) \<and>
         p_module p = Some (module d0) \<and>
         sys_modules E (''geodata.datasets.'' @ module d0) = Some (dataset_module d0) \<and>
         weather_data_config (dataset_module d0) (config d0) = Some (weatherconfig d0) \<and>
         (\<forall>mos. p_months p = Some mos \<longrightarrow> months d0 = mos)"
    by (auto simp: init_request_def Let_def bind_result_eq_Inr cfg_get_def
        split: option.splits if_splits)
  moreover from init_bounds_keeps [OF d1] req
  have "years d = years d0 \<and> config d = config d0 \<and> module d = module d0 \<and>
        dataset_module d = dataset_module d0 \<and> weatherconfig d = weatherconfig d0 \<and>
        months d = months d0"
    by (simp add: same_request_def)
  ultimately show ?thesis by simp
qed

lemma renders_unique: "renders E d key a \<Longrightarrow> renders E d key b \<Longrightarrow> a = b"
  by (simp add: renders_def prod_eq_iff)

lemma list_all2_unique:
  assumes "list_all2 R xs ys" and "list_all2 R xs zs"
    and "\<And>x y z. R x y \<Longrightarrow> R x z \<Longrightarrow> y = z"
  shows "ys = zs"
  using assms(1,2)
proof (induction xs arbitrary: ys zs)
  case Nil
  then show ?case by simp
next
  case (Cons x xs)
  then show ?case by (auto simp: list_all2_Cons1 dest: assms(3))
qed

lemma slice_values_single: "slice_values (Slice y y None) = [y]"
  by (simp add: slice_values_def slice_step_def range_from.simps [of y]
      range_from.simps [of "y + 1"])

lemma slice_values_months: "slice_values (Slice 1 12 None) = [1, 2, 3, 4, 5, 6, 7, 8, 9, 10, 11, 12]"
  by (simp add: slice_values_def slice_step_def range_from.simps)




text \<open>
  C7. After a construction that succeeds, \<open>totalFiles\<close> is the list of the artifacts of
  the keys of the request, which are ordered by year, then month, then day, each
  rendered from its key; it is the same list for any other filesystem, so it depends
  on the request only. For the granularity \<open>monthly\<close> the keys are the pairs of year and
  month, and for the years \<open>(2020, 2020)\<close> and the months \<open>(1, 12)\<close> they are the twelve
  keys \<open>(2020, 1)\<close> to \<open>(2020, 12)\<close> in this order.
\<close>

theorem enumeration_in_key_order:
  assumes "Dataset_init E fs p = Inr d"
    and "Dataset_init E fs' p = Inr d'"
  shows "list_all2 (renders E d) (expected_keys d) (totalFiles d) \<and>
         totalFiles d' = totalFiles d \<and>
         (file_granularity (weatherconfig d) = Some ''monthly'' \<longrightarrow>
            list_all2 (\<lambda>(yr, mo) a. renders E d [yr, mo] a)
              (monthly_keys (slice_values (years d)) (slice_values (months d))) (totalFiles d)) \<and>
         (file_granularity (weatherconfig d) = Some ''monthly'' \<and>
          years d = Slice 2020 2020 None \<and> months d = Slice 1 12 None \<longrightarrow>
            length (totalFiles d) = 12 \<and>
            monthly_keys (slice_values (years d)) (slice_values (months d)) =
              [(2020, 1), (2020, 2), (2020, 3), (2020, 4), (2020, 5), (2020, 6),
               (2020, 7), (2020, 8), (2020, 9), (2020, 10), (2020, 11), (2020, 12)])"
proof -
  have all: "list_all2 (renders E d) (expected_keys d) (totalFiles d)"
    using Dataset_init_scanned [OF assms(1)] by simp
  have same: "totalFiles d' = totalFiles d"
  proof -
    from Dataset_init_same_request [OF assms(1)] Dataset_init_same_request [OF assms(2)]
    have req: "same_request d d'"
      by (auto intro: same_request_trans same_request_sym)
    from Dataset_init_scanned [OF assms(2)]
    have "list_all2 (renders E d) (expected_keys d) (totalFiles d')"
      by (simp add: renders_same_request [OF req] expected_keys_same_request [OF req])
    then show ?thesis using all by (rule list_all2_unique) (rule renders_unique)
  qed
  have monthly: "list_all2 (\<lambda>(yr, mo) a. renders E d [yr, mo] a)
      (monthly_keys (slice_values (years d)) (slice_values (months d))) (totalFiles d)"
    if "file_granularity (weatherconfig d) = Some ''monthly''"
    using all that by (simp add: expected_keys_def list_all2_map1 split_def)
  have twelve: "length (totalFiles d) = 12 \<and>
      monthly_keys (slice_values (years d)) (slice_values (months d)) =
        [(2020, 1), (2020, 2), (2020, 3), (2020, 4), (2020, 5), (2020, 6),
         (2020, 7), (2020, 8), (2020, 9), (2020, 10), (2020, 11), (2020, 12)]"
    if "file_granularity (weatherconfig d) = Some ''monthly''"
      and "years d = Slice 2020 2020 None \<and> months d = Slice 1 12 None"
    using list_all2_lengthD [OF monthly [OF that(1)]] that(2)
    by (simp add: slice_values_single slice_values_months monthly_keys_def)
  from all same monthly twelve show ?thesis by blast
qed

theorem enumeration_in_key_order_witness:
  "length (totalFiles (projr (Dataset_init sample_env fs_nothing
     (request ''sample'' ''by_month'' (Slice 2020 2020 None) (Slice 1 12 None) None)))) = 12 \<and>
   totalFiles (projr (Dataset_init sample_env fs_everything
     (request ''sample'' ''by_month'' (Slice 2020 2020 None) (Slice 1 12 None) None))) =
   totalFiles (projr (Dataset_init sample_env fs_nothing
     (request ''sample'' ''by_month'' (Slice 2020 2020 None) (Slice 1 12 None) None)))"
proof -
  let ?p = "request ''sample'' ''by_month'' (Slice 2020 2020 None) (Slice 1 12 None) None"
  let ?d = "projr (Dataset_init sample_env fs_nothing ?p)"
  let ?d' = "projr (Dataset_init sample_env fs_everything ?p)"
  have "\<not> isl (Dataset_init sample_env fs_nothing ?p)"
    by (simp add: init_defs sample_defs)
  then have run: "Dataset_init sample_env fs_nothing ?p = Inr ?d" by simp
  have "\<not> isl (Dataset_init sample_env fs_everything ?p)"
    by (simp add: init_defs sample_defs)
  then have run': "Dataset_init sample_env fs_everything ?p = Inr ?d'" by simp
  from Dataset_init_request [OF run]
  have req: "years ?d = Slice 2020 2020 None" "months ?d = Slice 1 12 None"
    "module ?d = ''sample''" "config ?d = ''by_month''"
    "sys_modules sample_env (''geodata.datasets.'' @ module ?d) = Some (dataset_module ?d)"
    "weather_data_config (dataset_module ?d) (config ?d) = Some (weatherconfig ?d)"
    by (auto simp: request_def)
  from req(3-6) have "weatherconfig ?d = monthly_cfg"
    by (simp add: sample_env_def sample_module_def)
  then have g: "file_granularity (weatherconfig ?d) = Some ''monthly''"
    by (simp add: monthly_cfg_def)
  from enumeration_in_key_order [OF run run'] g req(1,2) show ?thesis by simp
qed

end
